theory Spec2Isabelle
  imports Complex_Main "HOL-Library.List_Lexorder"
begin

section \<open>Strings, values and the host\<close>

text \<open>
  A JavaScript string is a sequence of UTF-16 code units; it is modelled as the list of
  their numbers, so that the Cyrillic keys and labels of the source are single elements.
  The order \<open><\<close> on these lists is the lexicographic order on code units, which is
  what \<^verbatim>\<open><\<close> and the default \<^verbatim>\<open>sort()\<close> of JavaScript use on strings.
  Numbers are modelled as reals: sums and quotients are exact, and NaN and the
  infinities have no representation.
\<close>

type_synonym jsstring = "nat list"

definition ascii :: "string \<Rightarrow> jsstring" where
  "ascii s = map of_char s"

text \<open>The human-readable (Cyrillic) keys and the two fallback labels of the normaliser.\<close>

definition key_revenue_ru :: jsstring where
  \<comment> \<open>"Vyruchka, RUB-sign"\<close>
  "key_revenue_ru = [1042, 1099, 1088, 1091, 1095, 1082, 1072, 44, 32, 8381]"

definition key_checks_ru :: jsstring where
  \<comment> \<open>"Cheki, sht."\<close>
  "key_checks_ru = [1063, 1077, 1082, 1080, 44, 32, 1096, 1090, 46]"

definition key_pieces_ru :: jsstring where
  \<comment> \<open>"Shtuki"\<close>
  "key_pieces_ru = [1064, 1090, 1091, 1082, 1080]"

definition key_weight_ru :: jsstring where
  \<comment> \<open>"Ves, kg"\<close>
  "key_weight_ru = [1042, 1077, 1089, 44, 32, 1082, 1075]"

definition key_date_ru :: jsstring where
  \<comment> \<open>"Data"\<close>
  "key_date_ru = [1044, 1072, 1090, 1072]"

definition key_store_ru :: jsstring where
  \<comment> \<open>"Magazin"\<close>
  "key_store_ru = [1052, 1072, 1075, 1072, 1079, 1080, 1085]"

definition key_category_ru :: jsstring where
  \<comment> \<open>"Kategoriya tovara"\<close>
  "key_category_ru =
     [1050, 1072, 1090, 1077, 1075, 1086, 1088, 1080, 1103, 32,
      1090, 1086, 1074, 1072, 1088, 1072]"

definition key_unit_ru :: jsstring where
  \<comment> \<open>"Sht. v kg"\<close>
  "key_unit_ru = [1064, 1090, 46, 32, 1074, 32, 1082, 1075]"

definition label_unknown :: jsstring where
  \<comment> \<open>"Neizvestno" (unknown)\<close>
  "label_unknown = [1053, 1077, 1080, 1079, 1074, 1077, 1089, 1090, 1085, 1086]"

definition label_other :: jsstring where
  \<comment> \<open>"Prochee" (other)\<close>
  "label_other = [1055, 1088, 1086, 1095, 1077, 1077]"

definition kg_cyr :: jsstring where
  \<comment> \<open>the Cyrillic "kg": U+043A U+0433\<close>
  "kg_cyr = [1082, 1075]"

text \<open>
  Raw values are what \<^verbatim>\<open>JSON.parse\<close> produces, arrays left out; \<open>JUndefined\<close> is the
  value of an absent key. An object is its list of entries, looked up from the front.
\<close>

datatype jsval =
    JUndefined
  | JNull
  | JBool bool
  | JNum real
  | JStr jsstring
  | JObj "(jsstring \<times> jsval) list"

datatype error =
    TypeError   \<comment> \<open>a property read on \<^verbatim>\<open>null\<close> or \<^verbatim>\<open>undefined\<close>\<close>
  | NonFinite   \<comment> \<open>a result that is NaN or infinite, hence not a real\<close>

definition bindE :: "error + 'a \<Rightarrow> ('a \<Rightarrow> error + 'b) \<Rightarrow> error + 'b" where
  "bindE m f = (case m of Inl e \<Rightarrow> Inl e | Inr x \<Rightarrow> f x)"

text \<open>
  Division of a number by zero yields an infinity or NaN in JavaScript. The model
  has no such value, so an unguarded division by zero is the error \<open>NonFinite\<close>.
\<close>

definition js_div :: "real \<Rightarrow> real \<Rightarrow> error + real" where
  "js_div a b = (if b = 0 then Inl NonFinite else Inr (a / b))"

text \<open>
  The functions of the JavaScript host whose results are fixed by the engine and its
  locale data rather than by the source: \<^verbatim>\<open>String(x)\<close> on a number,
  \<^verbatim>\<open>s.toLowerCase()\<close>, \<^verbatim>\<open>Number(s)\<close> on a string (\<open>None\<close> for NaN) and
  \<^verbatim>\<open>a.localeCompare(b)\<close>. The program is modelled relative to a host.
\<close>

record host =
  numberToString :: "real \<Rightarrow> jsstring"
  toLowerCase :: "jsstring \<Rightarrow> jsstring"
  toNumber :: "jsstring \<Rightarrow> real option"
  localeCompare :: "jsstring \<Rightarrow> jsstring \<Rightarrow> real"

fun truthy :: "jsval \<Rightarrow> bool" where
  "truthy JUndefined = False"
| "truthy JNull = False"
| "truthy (JBool b) = b"
| "truthy (JNum x) = (x \<noteq> 0)"
| "truthy (JStr s) = (s \<noteq> [])"
| "truthy (JObj kvs) = True"

definition js_or :: "jsval \<Rightarrow> jsval \<Rightarrow> jsval" where
  \<comment> \<open>\<^verbatim>\<open>a || b\<close>\<close>
  "js_or a b = (if truthy a then a else b)"

fun jsString :: "host \<Rightarrow> jsval \<Rightarrow> jsstring" where
  \<comment> \<open>\<^verbatim>\<open>String(v)\<close>\<close>
  "jsString E JUndefined = ascii ''undefined''"
| "jsString E JNull = ascii ''null''"
| "jsString E (JBool b) = (if b then ascii ''true'' else ascii ''false'')"
| "jsString E (JNum x) = numberToString E x"
| "jsString E (JStr s) = s"
| "jsString E (JObj kvs) = ascii ''[object Object]''"

fun getProps :: "jsval \<Rightarrow> error + (jsstring \<Rightarrow> jsval)" where
  \<comment> \<open>the property reads \<^verbatim>\<open>v.k\<close> of a value, for the keys the normaliser reads:
      a primitive has none of them, \<^verbatim>\<open>null\<close> and \<^verbatim>\<open>undefined\<close> raise\<close>
  "getProps JUndefined = Inl TypeError"
| "getProps JNull = Inl TypeError"
| "getProps (JObj kvs) = Inr (\<lambda>k. case map_of kvs k of None \<Rightarrow> JUndefined | Some v \<Rightarrow> v)"
| "getProps v = Inr (\<lambda>k. JUndefined)"

section \<open>Value coercion\<close>

definition isWhiteSpace :: "nat \<Rightarrow> bool" where
  \<comment> \<open>the class \<^verbatim>\<open>\s\<close>, which is also what \<^verbatim>\<open>trim\<close> strips\<close>
  "isWhiteSpace c =
     (c \<in> {9, 10, 11, 12, 13, 32, 160, 5760, 8232, 8233, 8239, 8287, 12288, 65279}
      \<or> (8192 \<le> c \<and> c \<le> 8202))"

definition isLineBreak :: "nat \<Rightarrow> bool" where
  \<comment> \<open>the class \<^verbatim>\<open>[\n\r]\<close>\<close>
  "isLineBreak c = (c = 10 \<or> c = 13)"

definition isDigit :: "nat \<Rightarrow> bool" where
  "isDigit c = (48 \<le> c \<and> c \<le> 57)"

definition trim :: "jsstring \<Rightarrow> jsstring" where
  "trim s = rev (dropWhile isWhiteSpace (rev (dropWhile isWhiteSpace s)))"

fun str_includes :: "jsstring \<Rightarrow> jsstring \<Rightarrow> bool" where
  \<comment> \<open>\<^verbatim>\<open>s.includes(t)\<close>\<close>
  "str_includes [] t = (t = [])"
| "str_includes (c # s) t = (take (length t) (c # s) = t \<or> str_includes s t)"

fun replaceFirst :: "nat \<Rightarrow> nat \<Rightarrow> jsstring \<Rightarrow> jsstring" where
  \<comment> \<open>\<^verbatim>\<open>s.replace(a, b)\<close> with a string pattern: the first occurrence only\<close>
  "replaceFirst a b [] = []"
| "replaceFirst a b (c # s) = (if c = a then b # s else c # replaceFirst a b s)"

definition cleanString :: "host \<Rightarrow> jsval \<Rightarrow> jsstring" where
  "cleanString E val =
     (if val = JNull \<or> val = JUndefined then []
      else trim (filter (\<lambda>c. \<not> isLineBreak c) (jsString E val)))"

definition digitsVal :: "jsstring \<Rightarrow> nat" where
  "digitsVal ds = foldl (\<lambda>a c. 10 * a + (c - 48)) 0 ds"

definition parseFloat :: "jsstring \<Rightarrow> real option" where
  \<comment> \<open>\<^verbatim>\<open>parseFloat\<close> on the alphabet that survives the cleaning of \<open>parseNum\<close>
      (digits, point, minus): the longest prefix that is a decimal literal, read exactly;
      \<open>None\<close> is NaN\<close>
  "parseFloat s =
     (let neg = (s \<noteq> [] \<and> hd s = 45);
          r = (if neg then tl s else s);
          ip = takeWhile isDigit r;
          r' = dropWhile isDigit r;
          fp = (if r' \<noteq> [] \<and> hd r' = 46 then takeWhile isDigit (tl r') else [])
      in if ip = [] \<and> fp = [] then None
         else Some ((if neg then - 1 else 1) *
                    (real (digitsVal ip) + real (digitsVal fp) / 10 ^ length fp)))"

definition parseNum :: "host \<Rightarrow> jsval \<Rightarrow> real" where
  "parseNum E val =
     (case val of
        JNum x \<Rightarrow> x
      | _ \<Rightarrow>
          if \<not> truthy val then 0
          else
            let cleaned =
                  filter (\<lambda>c. isDigit c \<or> c = 46 \<or> c = 45)
                    (replaceFirst 44 46
                      (filter (\<lambda>c. \<not> isWhiteSpace c)
                        (filter (\<lambda>c. \<not> isLineBreak c) (jsString E val))))
            in (case parseFloat cleaned of None \<Rightarrow> 0 | Some parsed \<Rightarrow> parsed))"

section \<open>Normalisation\<close>

datatype unit_type = Kg | Pcs

definition unitStr :: "unit_type \<Rightarrow> jsstring" where
  "unitStr u = (case u of Kg \<Rightarrow> ascii ''kg'' | Pcs \<Rightarrow> ascii ''pcs'')"

record NormalizedRow =
  row_id :: jsstring
  date :: jsstring
  store_name :: jsstring
  category_name :: jsstring
  unit_raw :: jsstring
  unit_type :: unit_type
  pieces_per_kg :: real
  weight_kg :: real
  revenue_rub :: real
  checks :: real
  pieces :: real
  week :: real
  month :: real
  quarter :: real
  year :: real
  atv :: real
  upt :: real
  avg_price_per_kg :: real
  avg_price_per_piece :: real

definition normalizeFields :: "host \<Rightarrow> nat \<Rightarrow> (jsstring \<Rightarrow> jsval) \<Rightarrow> error + NormalizedRow"
  where
  \<comment> \<open>the body of the \<^verbatim>\<open>map\<close> callback once \<open>row\<close> is resolved; \<open>row k\<close> is \<^verbatim>\<open>row[k]\<close>\<close>
  "normalizeFields E idx row =
     (let revenue = parseNum E (js_or (js_or (row (ascii ''revenue_rub'')) (row key_revenue_ru))
                                      (row (ascii ''revenue_rub_raw'')));
          checks = parseNum E (js_or (row (ascii ''checks'')) (row key_checks_ru));
          pieces = parseNum E (js_or (js_or (row (ascii ''pieces'')) (row key_pieces_ru))
                                     (row (ascii ''peaces'')));
          weight = parseNum E (js_or (row (ascii ''weight_kg'')) (row key_weight_ru));
          dateStr = cleanString E (js_or (row (ascii ''date'')) (row key_date_ru));
          store = cleanString E (js_or (js_or (row (ascii ''store_name'')) (row key_store_ru))
                                       (JStr label_unknown));
          category = cleanString E (js_or (js_or (row (ascii ''category_name''))
                                                 (row key_category_ru))
                                          (JStr label_other));
          rawUnit = cleanString E (js_or (row (ascii ''unit_raw'')) (row key_unit_ru));
          unitTypeClean = toLowerCase E (cleanString E (row (ascii ''unit_type'')));
          unitType = (if str_includes unitTypeClean (ascii ''kg'')
                         \<or> str_includes unitTypeClean kg_cyr
                         \<or> str_includes (toLowerCase E rawUnit) kg_cyr
                      then Kg else Pcs)
      in
      bindE (if 0 < checks then js_div revenue checks else Inr 0) (\<lambda>atv_v.
      bindE (if 0 < checks then js_div pieces checks else Inr 0) (\<lambda>upt_v.
      bindE (if 0 < weight then js_div revenue weight else Inr 0) (\<lambda>price_kg.
      bindE (if 0 < pieces then js_div revenue pieces else Inr 0) (\<lambda>price_piece.
        Inr \<lparr> row_id = (if cleanString E (row (ascii ''id'')) \<noteq> []
                         then cleanString E (row (ascii ''id''))
                         else ascii ''row-'' @ numberToString E (real idx)),
              date = dateStr,
              store_name = store,
              category_name = category,
              unit_raw = rawUnit,
              unit_type = unitType,
              pieces_per_kg = parseNum E (row (ascii ''pieces_per_kg'')),
              weight_kg = weight,
              revenue_rub = revenue,
              checks = checks,
              pieces = pieces,
              week = parseNum E (row (ascii ''week'')),
              month = parseNum E (row (ascii ''month'')),
              quarter = parseNum E (row (ascii ''quarter'')),
              year = (if parseNum E (row (ascii ''year'')) \<noteq> 0
                      then parseNum E (row (ascii ''year'')) else 2025),
              atv = atv_v,
              upt = upt_v,
              avg_price_per_kg = price_kg,
              avg_price_per_piece = price_piece \<rparr>)))))"

definition normalizeRow :: "host \<Rightarrow> nat \<Rightarrow> jsval \<Rightarrow> error + NormalizedRow" where
  \<comment> \<open>\<^verbatim>\<open>const row = item.json ? item.json : item\<close>, then the fields read from \<open>row\<close>\<close>
  "normalizeRow E idx item =
     bindE (getProps item) (\<lambda>itemProps.
     bindE (getProps (if truthy (itemProps (ascii ''json''))
                      then itemProps (ascii ''json'') else item))
       (normalizeFields E idx))"

fun normalizeFrom :: "host \<Rightarrow> nat \<Rightarrow> jsval list \<Rightarrow> error + NormalizedRow list" where
  \<comment> \<open>\<^verbatim>\<open>raw.map((item, idx) => ...)\<close> from index \<open>idx\<close> on\<close>
  "normalizeFrom E idx [] = Inr []"
| "normalizeFrom E idx (item # items) =
     bindE (normalizeRow E idx item) (\<lambda>n.
     bindE (normalizeFrom E (Suc idx) items) (\<lambda>ns. Inr (n # ns)))"

definition normalizeData :: "host \<Rightarrow> jsval list \<Rightarrow> error + NormalizedRow list" where
  "normalizeData E raw = normalizeFrom E 0 raw"

section \<open>Filtering\<close>

record Filters =
  dateFrom :: jsstring
  dateTo :: jsstring
  stores :: "jsstring list"
  categories :: "jsstring list"
  unitTypes :: "jsstring list"

definition passes :: "Filters \<Rightarrow> NormalizedRow \<Rightarrow> bool" where
  \<comment> \<open>the callback of \<^verbatim>\<open>data.filter\<close>, one early return per line\<close>
  "passes filters d =
     (if dateFrom filters \<noteq> [] \<and> date d < dateFrom filters then False
      else if dateTo filters \<noteq> [] \<and> date d > dateTo filters then False
      else if stores filters \<noteq> [] \<and> store_name d \<notin> set (stores filters) then False
      else if categories filters \<noteq> [] \<and> category_name d \<notin> set (categories filters) then False
      else if unitTypes filters \<noteq> [] \<and> unitStr (unit_type d) \<notin> set (unitTypes filters)
        then False
      else True)"

definition filteredData :: "NormalizedRow list \<Rightarrow> Filters \<Rightarrow> NormalizedRow list" where
  "filteredData data filters = filter (passes filters) data"

section \<open>KPI aggregation\<close>

text \<open>
  \<open>stats\<close> returns the numbers it computes; the source wraps each in a display
  formatter (\<^verbatim>\<open>formatCurrency\<close>, \<^verbatim>\<open>formatCompact\<close>, \<^verbatim>\<open>formatWeight\<close>, \<^verbatim>\<open>toFixed\<close>),
  which is left out.
\<close>

record totals =
  t_rev :: real
  t_chk :: real
  t_pcs :: real
  t_wgt :: real

record kpis =
  kpi_revenue :: real
  kpi_checks :: real
  kpi_pieces :: real
  kpi_weight :: real
  kpi_atv :: real
  kpi_upt :: real

definition total :: "NormalizedRow list \<Rightarrow> totals" where
  \<comment> \<open>the \<^verbatim>\<open>reduce\<close> of \<open>stats\<close>\<close>
  "total rows =
     fold (\<lambda>curr acc. \<lparr> t_rev = t_rev acc + revenue_rub curr,
                         t_chk = t_chk acc + checks curr,
                         t_pcs = t_pcs acc + pieces curr,
                         t_wgt = t_wgt acc + weight_kg curr \<rparr>)
       rows \<lparr> t_rev = 0, t_chk = 0, t_pcs = 0, t_wgt = 0 \<rparr>"

definition stats :: "NormalizedRow list \<Rightarrow> error + kpis" where
  "stats rows =
     bindE (if 0 < t_chk (total rows) then js_div (t_rev (total rows)) (t_chk (total rows))
            else Inr 0) (\<lambda>atv_v.
     bindE (if 0 < t_chk (total rows) then js_div (t_pcs (total rows)) (t_chk (total rows))
            else Inr 0) (\<lambda>upt_v.
       Inr \<lparr> kpi_revenue = t_rev (total rows),
             kpi_checks = t_chk (total rows),
             kpi_pieces = t_pcs (total rows),
             kpi_weight = t_wgt (total rows),
             kpi_atv = atv_v,
             kpi_upt = upt_v \<rparr>))"

section \<open>The pivot table\<close>

datatype PivotValueType =
  sum_revenue | sum_checks | sum_pieces | sum_weight | calc_atv | calc_upt

datatype rowField =
    F_id | F_date | F_store_name | F_category_name | F_unit_raw | F_unit_type
  | F_pieces_per_kg | F_weight_kg | F_revenue_rub | F_checks | F_pieces
  | F_week | F_month | F_quarter | F_year
  | F_atv | F_upt | F_avg_price_per_kg | F_avg_price_per_piece

fun dimKey :: "host \<Rightarrow> rowField \<Rightarrow> NormalizedRow \<Rightarrow> jsstring" where
  \<comment> \<open>\<^verbatim>\<open>String(d[f])\<close> for a key \<open>f\<close> of \<open>NormalizedRow\<close>\<close>
  "dimKey E F_id d = row_id d"
| "dimKey E F_date d = date d"
| "dimKey E F_store_name d = store_name d"
| "dimKey E F_category_name d = category_name d"
| "dimKey E F_unit_raw d = unit_raw d"
| "dimKey E F_unit_type d = unitStr (unit_type d)"
| "dimKey E F_pieces_per_kg d = numberToString E (pieces_per_kg d)"
| "dimKey E F_weight_kg d = numberToString E (weight_kg d)"
| "dimKey E F_revenue_rub d = numberToString E (revenue_rub d)"
| "dimKey E F_checks d = numberToString E (checks d)"
| "dimKey E F_pieces d = numberToString E (pieces d)"
| "dimKey E F_week d = numberToString E (week d)"
| "dimKey E F_month d = numberToString E (month d)"
| "dimKey E F_quarter d = numberToString E (quarter d)"
| "dimKey E F_year d = numberToString E (year d)"
| "dimKey E F_atv d = numberToString E (atv d)"
| "dimKey E F_upt d = numberToString E (upt d)"
| "dimKey E F_avg_price_per_kg d = numberToString E (avg_price_per_kg d)"
| "dimKey E F_avg_price_per_piece d = numberToString E (avg_price_per_piece d)"

definition setToArray :: "'a list \<Rightarrow> 'a list" where
  \<comment> \<open>\<^verbatim>\<open>Array.from(new Set(xs))\<close>: the distinct values, each at its first occurrence\<close>
  "setToArray xs = rev (remdups (rev xs))"

text \<open>
  \<^verbatim>\<open>Array.prototype.sort\<close> with a comparator is modelled as the stable insertion sort.
  Where the comparator is consistent on the elements, this is the list every
  conforming engine returns; elsewhere the engine's order is implementation-defined.
\<close>

fun insertBy :: "('a \<Rightarrow> 'a \<Rightarrow> real) \<Rightarrow> 'a \<Rightarrow> 'a list \<Rightarrow> 'a list" where
  "insertBy cmp x [] = [x]"
| "insertBy cmp x (y # ys) = (if cmp x y \<le> 0 then x # y # ys else y # insertBy cmp x ys)"

definition sortBy :: "('a \<Rightarrow> 'a \<Rightarrow> real) \<Rightarrow> 'a list \<Rightarrow> 'a list" where
  "sortBy cmp xs = foldr (insertBy cmp) xs []"

definition colCompare :: "host \<Rightarrow> jsstring \<Rightarrow> jsstring \<Rightarrow> real" where
  \<comment> \<open>the comparator of the column keys\<close>
  "colCompare E a b =
     (case toNumber E a of
        None \<Rightarrow> localeCompare E a b
      | Some x \<Rightarrow> (case toNumber E b of None \<Rightarrow> localeCompare E a b | Some y \<Rightarrow> x - y))"

definition rowKeysOf :: "host \<Rightarrow> NormalizedRow list \<Rightarrow> rowField \<Rightarrow> jsstring list" where
  "rowKeysOf E rows pivotRow = sort (setToArray (map (dimKey E pivotRow) rows))"

definition colKeysOf :: "host \<Rightarrow> NormalizedRow list \<Rightarrow> rowField \<Rightarrow> jsstring list" where
  "colKeysOf E rows pivotCol =
     sortBy (colCompare E) (setToArray (map (dimKey E pivotCol) rows))"

record cellAux =
  a_rev :: real
  a_chk :: real
  a_pcs :: real

text \<open>
  The two matrices are objects used as dictionaries, modelled as maps from keys to
  rows and from keys to cells. A read \<^verbatim>\<open>m[r][c]\<close> raises when \<^verbatim>\<open>m[r]\<close> is undefined,
  and so does \<^verbatim>\<open>m[r][c].rev\<close> when the cell is; adding a number to an undefined cell
  gives NaN. Names that a JavaScript object inherits from its prototype
  (\<^verbatim>\<open>__proto__\<close>, \<^verbatim>\<open>constructor\<close>, ...) are not treated specially as keys.
\<close>

type_synonym 'v grid = "jsstring \<rightharpoonup> (jsstring \<rightharpoonup> 'v)"

definition initCells :: "jsstring list \<Rightarrow> 'v \<Rightarrow> (jsstring \<rightharpoonup> 'v)" where
  \<comment> \<open>\<^verbatim>\<open>colKeys.forEach(c => m[r][c] = v)\<close> on a fresh object\<close>
  "initCells colKeys v = fold (\<lambda>c cells. cells(c \<mapsto> v)) colKeys Map.empty"

definition initGrid :: "jsstring list \<Rightarrow> jsstring list \<Rightarrow> 'v \<Rightarrow> 'v grid" where
  "initGrid rowKeys colKeys v =
     fold (\<lambda>r m. m(r \<mapsto> initCells colKeys v)) rowKeys Map.empty"

definition addCell :: "real grid \<Rightarrow> jsstring \<Rightarrow> jsstring \<Rightarrow> real \<Rightarrow> error + real grid" where
  \<comment> \<open>\<^verbatim>\<open>matrix[r][c] += x\<close>\<close>
  "addCell m r c x =
     (case m r of
        None \<Rightarrow> Inl TypeError
      | Some cells \<Rightarrow>
          (case cells c of
             None \<Rightarrow> Inl NonFinite
           | Some v \<Rightarrow> Inr (m(r \<mapsto> cells(c \<mapsto> v + x)))))"

definition setCell :: "'v grid \<Rightarrow> jsstring \<Rightarrow> jsstring \<Rightarrow> 'v \<Rightarrow> error + 'v grid" where
  \<comment> \<open>a write \<^verbatim>\<open>m[r][c] = x\<close>, or into the fields of the cell \<^verbatim>\<open>m[r][c]\<close>\<close>
  "setCell m r c x =
     (case m r of
        None \<Rightarrow> Inl TypeError
      | Some cells \<Rightarrow> Inr (m(r \<mapsto> cells(c \<mapsto> x))))"

definition readAux :: "cellAux grid \<Rightarrow> jsstring \<Rightarrow> jsstring \<Rightarrow> error + cellAux" where
  \<comment> \<open>the cell \<^verbatim>\<open>matrixAux[r][c]\<close>, read for one of its fields\<close>
  "readAux m r c =
     (case m r of
        None \<Rightarrow> Inl TypeError
      | Some cells \<Rightarrow> (case cells c of None \<Rightarrow> Inl TypeError | Some a \<Rightarrow> Inr a))"

definition pivotStep ::
  "host \<Rightarrow> rowField \<Rightarrow> rowField \<Rightarrow> PivotValueType \<Rightarrow> NormalizedRow \<Rightarrow>
   real grid \<times> cellAux grid \<Rightarrow> error + (real grid \<times> cellAux grid)" where
  \<comment> \<open>the body of \<^verbatim>\<open>filteredData.forEach\<close>\<close>
  "pivotStep E pivotRow pivotCol pivotVal d st =
     (let matrix = fst st; matrixAux = snd st;
          r = dimKey E pivotRow d; c = dimKey E pivotCol d
      in
      bindE (readAux matrixAux r c) (\<lambda>a.
        let a' = \<lparr> a_rev = a_rev a + revenue_rub d,
                   a_chk = a_chk a + checks d,
                   a_pcs = a_pcs a + pieces d \<rparr>
        in
        bindE (setCell matrixAux r c a') (\<lambda>matrixAux'.
        bindE
          (case pivotVal of
             sum_revenue \<Rightarrow> addCell matrix r c (revenue_rub d)
           | sum_checks \<Rightarrow> addCell matrix r c (checks d)
           | sum_pieces \<Rightarrow> addCell matrix r c (pieces d)
           | sum_weight \<Rightarrow> addCell matrix r c (weight_kg d)
           | calc_atv \<Rightarrow>
               bindE (if 0 < a_chk a' then js_div (a_rev a') (a_chk a') else Inr 0)
                 (setCell matrix r c)
           | calc_upt \<Rightarrow>
               bindE (if 0 < a_chk a' then js_div (a_pcs a') (a_chk a') else Inr 0)
                 (setCell matrix r c))
          (\<lambda>matrix'. Inr (matrix', matrixAux')))))"

fun forEachE :: "('a \<Rightarrow> 's \<Rightarrow> error + 's) \<Rightarrow> 'a list \<Rightarrow> 's \<Rightarrow> error + 's" where
  \<comment> \<open>\<^verbatim>\<open>xs.forEach(f)\<close> on a state, stopping at the first exception\<close>
  "forEachE f [] st = Inr st"
| "forEachE f (x # xs) st = bindE (f x st) (forEachE f xs)"

record pivot =
  rowKeys :: "jsstring list"
  colKeys :: "jsstring list"
  matrix :: "real grid"
  matrixAux :: "cellAux grid"

definition pivotTable ::
  "host \<Rightarrow> NormalizedRow list \<Rightarrow> rowField \<Rightarrow> rowField \<Rightarrow> PivotValueType \<Rightarrow> error + pivot"
  where
  "pivotTable E rows pivotRow pivotCol pivotVal =
     (let rks = rowKeysOf E rows pivotRow;
          cks = colKeysOf E rows pivotCol
      in
      bindE (forEachE (pivotStep E pivotRow pivotCol pivotVal) rows
               (initGrid rks cks 0,
                initGrid rks cks \<lparr> a_rev = 0, a_chk = 0, a_pcs = 0 \<rparr>))
        (\<lambda>st. Inr \<lparr> rowKeys = rks, colKeys = cks, matrix = fst st, matrixAux = snd st \<rparr>))"

text \<open>
  The totals column of the rendered table: for each row key the cells are walked in
  column order with four running sums, and the final total is taken from them.
\<close>

record rowSums =
  rowTotal :: real
  rowRev :: real
  rowChk :: real
  rowPcs :: real

definition isSumMeasure :: "PivotValueType \<Rightarrow> bool" where
  \<comment> \<open>membership in the list of the four summed measures\<close>
  "isSumMeasure v = (v \<in> set [sum_revenue, sum_checks, sum_pieces, sum_weight])"

definition rowCell :: "pivot \<Rightarrow> PivotValueType \<Rightarrow> jsstring \<Rightarrow> jsstring \<Rightarrow> rowSums \<Rightarrow>
   error + rowSums" where
  \<comment> \<open>the body of the inner \<^verbatim>\<open>colKeys.map\<close>\<close>
  "rowCell pt pivotVal r c s =
     bindE (case matrix pt r of
              None \<Rightarrow> Inl TypeError
            | Some cells \<Rightarrow> Inr (case cells c of None \<Rightarrow> 0 | Some v \<Rightarrow> v)) (\<lambda>val.
     bindE (readAux (matrixAux pt) r c) (\<lambda>aux.
       Inr \<lparr> rowTotal = (if isSumMeasure pivotVal then rowTotal s + val else rowTotal s),
             rowRev = rowRev s + a_rev aux,
             rowChk = rowChk s + a_chk aux,
             rowPcs = rowPcs s + a_pcs aux \<rparr>))"

definition finalTotal :: "pivot \<Rightarrow> PivotValueType \<Rightarrow> jsstring \<Rightarrow> error + real" where
  \<comment> \<open>\<^verbatim>\<open>finalTotal\<close> starts as \<open>rowTotal\<close> and is overwritten under the two ratio measures\<close>
  "finalTotal pt pivotVal r =
     bindE (forEachE (rowCell pt pivotVal r) (colKeys pt)
              \<lparr> rowTotal = 0, rowRev = 0, rowChk = 0, rowPcs = 0 \<rparr>) (\<lambda>s.
     bindE (if pivotVal = calc_atv
            then (if 0 < rowChk s then js_div (rowRev s) (rowChk s) else Inr 0)
            else Inr (rowTotal s)) (\<lambda>t.
       if pivotVal = calc_upt
       then (if 0 < rowChk s then js_div (rowPcs s) (rowChk s) else Inr 0)
       else Inr t))"

section \<open>Chart series\<close>

text \<open>
  \<open>timeMap\<close> and \<open>catMap\<close> are objects used as dictionaries; they are modelled as
  entry lists in insertion order. \<^verbatim>\<open>Object.entries\<close> lists the keys that are array
  indices first, in ascending numeric order, then the others in insertion order.
  As for the matrices, names inherited from the prototype are not treated specially.
\<close>

fun bump :: "jsstring \<Rightarrow> real \<Rightarrow> (jsstring \<times> real) list \<Rightarrow> (jsstring \<times> real) list" where
  \<comment> \<open>\<^verbatim>\<open>m[k] = (m[k] || 0) + x\<close>\<close>
  "bump k x [] = [(k, 0 + x)]"
| "bump k x (e # m) = (if fst e = k then (k, snd e + x) # m else e # bump k x m)"

definition isArrayIndex :: "jsstring \<Rightarrow> bool" where
  "isArrayIndex k =
     (k \<noteq> [] \<and> list_all isDigit k \<and> (length k = 1 \<or> hd k \<noteq> 48)
      \<and> digitsVal k < 2 ^ 32 - 1)"

definition objectEntries :: "(jsstring \<times> real) list \<Rightarrow> (jsstring \<times> real) list" where
  "objectEntries m =
     sort_key (\<lambda>e. digitsVal (fst e)) (filter (\<lambda>e. isArrayIndex (fst e)) m)
     @ filter (\<lambda>e. \<not> isArrayIndex (fst e)) m"

record charts =
  time :: "(jsstring \<times> real) list"
  chart_categories :: "(jsstring \<times> real) list"

definition chartMaps ::
  "NormalizedRow list \<Rightarrow> (jsstring \<times> real) list \<times> (jsstring \<times> real) list" where
  \<comment> \<open>\<open>timeMap\<close> and \<open>catMap\<close> after the \<^verbatim>\<open>forEach\<close>\<close>
  "chartMaps rows =
     fold (\<lambda>d maps. (bump (date d) (revenue_rub d) (fst maps),
                      bump (category_name d) (revenue_rub d) (snd maps)))
       rows ([], [])"

definition chartData :: "host \<Rightarrow> NormalizedRow list \<Rightarrow> charts" where
  "chartData E rows =
     \<lparr> time = sortBy (\<lambda>a b. localeCompare E (fst a) (fst b))
                (objectEntries (fst (chartMaps rows))),
       chart_categories =
         take 10 (sortBy (\<lambda>a b. snd b - snd a) (objectEntries (snd (chartMaps rows)))) \<rparr>"

section \<open>A reference host\<close>

text \<open>
  A concrete host for evaluating the program on examples. It renders integral numbers
  in decimal, lowers the case of Basic Latin and Cyrillic letters, reads plain decimal
  literals, and compares strings by code units; outside these fragments it is only a
  stand-in, and the general theorems do not depend on it.
\<close>

function natDigits :: "nat \<Rightarrow> jsstring" where
  "natDigits n = (if n < 10 then [48 + n] else natDigits (n div 10) @ [48 + n mod 10])"
  by pat_completeness auto
termination
  by (relation "measure id") auto

definition refNumberToString :: "real \<Rightarrow> jsstring" where
  "refNumberToString x =
     (if x < 0 then 45 # natDigits (nat \<lfloor>- x\<rfloor>) else natDigits (nat \<lfloor>x\<rfloor>))"

definition refLower :: "nat \<Rightarrow> nat" where
  "refLower c =
     (if 65 \<le> c \<and> c \<le> 90 then c + 32
      else if 1040 \<le> c \<and> c \<le> 1071 then c + 32
      else if 1024 \<le> c \<and> c \<le> 1039 then c + 80
      else c)"

definition refNumber :: "jsstring \<Rightarrow> real option" where
  "refNumber s =
     (let t = trim s;
          r = (if t \<noteq> [] \<and> (hd t = 45 \<or> hd t = 43) then tl t else t);
          r' = dropWhile isDigit r
      in if t = [] then Some 0
         else if r \<noteq> [] \<and> r \<noteq> [46] \<and> (r' = [] \<or> (hd r' = 46 \<and> list_all isDigit (tl r')))
           then (if hd t = 43 then parseFloat r else parseFloat t)
         else None)"

definition refCompare :: "jsstring \<Rightarrow> jsstring \<Rightarrow> real" where
  "refCompare a b = (if a < b then - 1 else if a = b then 0 else 1)"

definition refHost :: host where
  "refHost = \<lparr> numberToString = refNumberToString,
               toLowerCase = map refLower,
               toNumber = refNumber,
               localeCompare = refCompare \<rparr>"

section \<open>Closed forms used in the proofs\<close>

text \<open>
  The total of a row of the rendered table, as the component computes it from the
  pivot it was given.
\<close>

definition rowTotalOf ::
  "host \<Rightarrow> NormalizedRow list \<Rightarrow> rowField \<Rightarrow> rowField \<Rightarrow> PivotValueType \<Rightarrow> jsstring \<Rightarrow>
   error + real" where
  "rowTotalOf E rows pivotRow pivotCol pivotVal r =
     bindE (pivotTable E rows pivotRow pivotCol pivotVal) (\<lambda>pt. finalTotal pt pivotVal r)"

text \<open>
  A grid that is defined exactly on the given row and column keys, the rows that fall
  into one cell, and the contents of a cell after a list of rows has been added to it.
\<close>

definition gridOf :: "jsstring set \<Rightarrow> jsstring set \<Rightarrow> (jsstring \<Rightarrow> jsstring \<Rightarrow> 'v) \<Rightarrow> 'v grid" where
  "gridOf R C f = (\<lambda>r. if r \<in> R then Some (\<lambda>c. if c \<in> C then Some (f r c) else None) else None)"

definition cellRows ::
  "host \<Rightarrow> rowField \<Rightarrow> rowField \<Rightarrow> NormalizedRow list \<Rightarrow> jsstring \<Rightarrow> jsstring \<Rightarrow>
   NormalizedRow list" where
  "cellRows E pivotRow pivotCol rows r c =
     filter (\<lambda>d. dimKey E pivotRow d = r \<and> dimKey E pivotCol d = c) rows"

definition auxOf :: "NormalizedRow list \<Rightarrow> cellAux" where
  "auxOf ds = \<lparr> a_rev = sum_list (map revenue_rub ds),
                a_chk = sum_list (map checks ds),
                a_pcs = sum_list (map pieces ds) \<rparr>"

definition cellOf :: "PivotValueType \<Rightarrow> NormalizedRow list \<Rightarrow> real" where
  "cellOf v ds =
     (case v of
        sum_revenue \<Rightarrow> sum_list (map revenue_rub ds)
      | sum_checks \<Rightarrow> sum_list (map checks ds)
      | sum_pieces \<Rightarrow> sum_list (map pieces ds)
      | sum_weight \<Rightarrow> sum_list (map weight_kg ds)
      | calc_atv \<Rightarrow>
          (if 0 < sum_list (map checks ds)
           then sum_list (map revenue_rub ds) / sum_list (map checks ds) else 0)
      | calc_upt \<Rightarrow>
          (if 0 < sum_list (map checks ds)
           then sum_list (map pieces ds) / sum_list (map checks ds) else 0))"

text \<open>Rows for the examples: a date, a store, a category and the three measures.\<close>

definition sampleRow ::
  "jsstring \<Rightarrow> jsstring \<Rightarrow> jsstring \<Rightarrow> real \<Rightarrow> real \<Rightarrow> real \<Rightarrow> NormalizedRow" where
  "sampleRow d s c revenue chk pcs =
     \<lparr> row_id = ascii ''row'', date = d, store_name = s, category_name = c,
       unit_raw = [], unit_type = Pcs, pieces_per_kg = 0, weight_kg = 0,
       revenue_rub = revenue, checks = chk, pieces = pcs,
       week = 1, month = 1, quarter = 1, year = 2025,
       atv = 0, upt = 0, avg_price_per_kg = 0, avg_price_per_piece = 0 \<rparr>"

text \<open>
  The zero guard as the specification words it, for comparison with the guards of
  the source: the quotient, and 0 when the divisor is 0.
\<close>

definition spec_ratio :: "real \<Rightarrow> real \<Rightarrow> real" where
  "spec_ratio a b = (if b = 0 then 0 else a / b)"

section \<open>Basic facts\<close>

lemma bindE_Inr: "bindE (Inr x) f = f x"
  by (simp add: bindE_def)

lemma ref_compare_le: "(localeCompare refHost a b \<le> 0) = (a \<le> b)"
  by (auto simp: refHost_def refCompare_def)

section \<open>KPI aggregation: ratio of sums\<close>

lemma total_fold:
  "fold (\<lambda>curr acc. \<lparr> t_rev = t_rev acc + revenue_rub curr,
                         t_chk = t_chk acc + checks curr,
                         t_pcs = t_pcs acc + pieces curr,
                         t_wgt = t_wgt acc + weight_kg curr \<rparr>) rows acc
   = \<lparr> t_rev = t_rev acc + sum_list (map revenue_rub rows),
       t_chk = t_chk acc + sum_list (map checks rows),
       t_pcs = t_pcs acc + sum_list (map pieces rows),
       t_wgt = t_wgt acc + sum_list (map weight_kg rows) \<rparr>"
  by (induction rows arbitrary: acc) (simp_all add: algebra_simps)

lemma total_sums:
  "total rows = \<lparr> t_rev = sum_list (map revenue_rub rows),
                  t_chk = sum_list (map checks rows),
                  t_pcs = sum_list (map pieces rows),
                  t_wgt = sum_list (map weight_kg rows) \<rparr>"
  by (simp add: total_def total_fold)

lemma guarded_div:
  "(if 0 < b then js_div a b else Inr 0) = Inr (if 0 < b then a / b else 0)"
  by (simp add: js_div_def)

lemma stats_closed:
  "stats rows =
     Inr \<lparr> kpi_revenue = sum_list (map revenue_rub rows),
           kpi_checks = sum_list (map checks rows),
           kpi_pieces = sum_list (map pieces rows),
           kpi_weight = sum_list (map weight_kg rows),
           kpi_atv = (if 0 < sum_list (map checks rows)
                      then sum_list (map revenue_rub rows) / sum_list (map checks rows)
                      else 0),
           kpi_upt = (if 0 < sum_list (map checks rows)
                      then sum_list (map pieces rows) / sum_list (map checks rows)
                      else 0) \<rparr>"
  unfolding stats_def guarded_div bindE_Inr total_sums by simp

text \<open>
  Claim C2, as the source has it. The headline ATV is the sum of the revenues divided
  by the sum of the checks, and the UPT the sum of the pieces divided by the sum of
  the checks: ratios of the aggregated sums, not means of the rows' ratios. Each is 0
  whenever the sum of the checks is not positive, so also when it is negative.
\<close>

theorem stats_ratio_of_sums:
  "stats rows =
     Inr \<lparr> kpi_revenue = sum_list (map revenue_rub rows),
           kpi_checks = sum_list (map checks rows),
           kpi_pieces = sum_list (map pieces rows),
           kpi_weight = sum_list (map weight_kg rows),
           kpi_atv = (if 0 < sum_list (map checks rows)
                      then sum_list (map revenue_rub rows) / sum_list (map checks rows)
                      else 0),
           kpi_upt = (if 0 < sum_list (map checks rows)
                      then sum_list (map pieces rows) / sum_list (map checks rows)
                      else 0) \<rparr>"
  by (rule stats_closed)

text \<open>
  The example of the claim: revenues 100 and 50 on 10 and 5 checks give the ATV
  150 / 15 = 10.
\<close>

theorem stats_ratio_of_sums_witness:
  "map_sum id kpi_atv (stats [sampleRow [] [] [] 100 10 0, sampleRow [] [] [] 50 5 0])
   = Inr 10"
  using stats_ratio_of_sums [of "[sampleRow [] [] [] 100 10 0, sampleRow [] [] [] 50 5 0]"]
  by (simp add: sampleRow_def)

text \<open>
  Claim C2 as stated, with 0 only when the sum of the checks is 0, fails on a row
  with revenue 5 and -1 checks: the source yields 0 where the stated quotient is -5.
\<close>

theorem stats_negative_checks_counterexample:
  "map_sum id kpi_atv (stats [sampleRow [] [] [] 5 (- 1) 0])
   \<noteq> Inr (spec_ratio (sum_list (map revenue_rub [sampleRow [] [] [] 5 (- 1) 0]))
                     (sum_list (map checks [sampleRow [] [] [] 5 (- 1) 0])))"
  by (simp add: stats_def total_def sampleRow_def spec_ratio_def bindE_Inr)

section \<open>Filtering\<close>

lemma passes_iff:
  "passes f d \<longleftrightarrow>
     (dateFrom f = [] \<or> dateFrom f \<le> date d)
   \<and> (dateTo f = [] \<or> date d \<le> dateTo f)
   \<and> (stores f = [] \<or> store_name d \<in> set (stores f))
   \<and> (categories f = [] \<or> category_name d \<in> set (categories f))
   \<and> (unitTypes f = [] \<or> unitStr (unit_type d) \<in> set (unitTypes f))"
  unfolding passes_def by (simp add: not_less [symmetric])

text \<open>
  Claim C6. The filter returns, in input order, exactly the rows for which the lower
  date bound is empty or not above the row's date, the upper bound is empty or not
  below it (dates compared as strings, lexicographically), and each of the three
  selections is empty or contains the row's store, category and unit type. With every
  bound and selection empty it returns the data unchanged.
\<close>

theorem filteredData_spec:
  "filteredData data f =
     filter (\<lambda>d. (dateFrom f = [] \<or> dateFrom f \<le> date d)
               \<and> (dateTo f = [] \<or> date d \<le> dateTo f)
               \<and> (stores f = [] \<or> store_name d \<in> set (stores f))
               \<and> (categories f = [] \<or> category_name d \<in> set (categories f))
               \<and> (unitTypes f = [] \<or> unitStr (unit_type d) \<in> set (unitTypes f))) data
   \<and> filteredData data \<lparr> dateFrom = [], dateTo = [], stores = [], categories = [],
                          unitTypes = [] \<rparr> = data"
  unfolding filteredData_def passes_iff by simp

theorem filteredData_spec_witness:
  "filteredData
     [sampleRow (ascii ''2025-07-01'') (ascii ''A'') (ascii ''x'') 1 1 1,
      sampleRow (ascii ''2025-08-15'') (ascii ''B'') (ascii ''x'') 2 1 1,
      sampleRow (ascii ''2025-09-30'') (ascii ''A'') (ascii ''y'') 3 1 1]
     \<lparr> dateFrom = ascii ''2025-08-01'', dateTo = [], stores = [ascii ''A'', ascii ''B''],
       categories = [], unitTypes = [ascii ''pcs''] \<rparr>
   = [sampleRow (ascii ''2025-08-15'') (ascii ''B'') (ascii ''x'') 2 1 1,
      sampleRow (ascii ''2025-09-30'') (ascii ''A'') (ascii ''y'') 3 1 1]"
  using filteredData_spec [of
     "[sampleRow (ascii ''2025-07-01'') (ascii ''A'') (ascii ''x'') 1 1 1,
      sampleRow (ascii ''2025-08-15'') (ascii ''B'') (ascii ''x'') 2 1 1,
      sampleRow (ascii ''2025-09-30'') (ascii ''A'') (ascii ''y'') 3 1 1]"
     "\<lparr> dateFrom = ascii ''2025-08-01'', dateTo = [], stores = [ascii ''A'', ascii ''B''],
       categories = [], unitTypes = [ascii ''pcs''] \<rparr>"]
  by (simp add: sampleRow_def ascii_def unitStr_def)

section \<open>Normalisation: unit type, fallback labels, alias chains\<close>

lemma unit_type_rule:
  "map_sum id unit_type (normalizeFields E idx row) =
     Inr (if str_includes (toLowerCase E (cleanString E (row (ascii ''unit_type''))))
               (ascii ''kg'')
            \<or> str_includes (toLowerCase E (cleanString E (row (ascii ''unit_type''))))
                 kg_cyr
            \<or> str_includes
                 (toLowerCase E
                    (cleanString E (js_or (row (ascii ''unit_raw'')) (row key_unit_ru))))
                 kg_cyr
          then Kg else Pcs)"
  unfolding normalizeFields_def Let_def guarded_div bindE_Inr by simp

lemmas normalize_eval =
  normalizeData_def normalizeRow_def normalizeFields_def bindE_Inr Let_def guarded_div
  ascii_def refHost_def cleanString_def trim_def isWhiteSpace_def isLineBreak_def js_or_def
  refLower_def

text \<open>
  \<open>parseNum\<close> on locale-formatted strings: "1 234,50" is 1234.5, a lone dash and
  the empty string are 0, and "12" followed by the Cyrillic "kg" is 12.
\<close>

lemma parseNum_examples:
  "parseNum refHost (JStr (ascii ''1 234,50'')) = 1234.5"
  "parseNum refHost (JStr [8212]) = 0"
  "parseNum refHost (JStr []) = 0"
  "parseNum refHost JNull = 0"
  "parseNum refHost (JStr [49, 50, 1082, 1075]) = 12"
  by (simp_all add: parseNum_def parseFloat_def digitsVal_def isDigit_def isWhiteSpace_def
        isLineBreak_def ascii_def Let_def)

text \<open>
  The two examples of claim C4 hold: a raw unit label "0.5" followed by the Cyrillic
  "kg" normalises to \<open>Kg\<close>, and "10" followed by the Cyrillic "sht" to \<open>Pcs\<close>.
\<close>

lemma unit_type_examples:
  "map_sum id (map unit_type)
     (normalizeData refHost
        [JObj [(ascii ''unit_raw'', JStr [48, 46, 53, 32, 1082, 1075])],
         JObj [(ascii ''unit_raw'', JStr [49, 48, 32, 1096, 1090])]])
   = Inr [Kg, Pcs]"
  by (simp add: normalize_eval key_unit_ru_def kg_cyr_def)

text \<open>
  Claim C4 at the input where the source departs from it: a row whose raw unit
  label is the Latin "5 kg" and which has no explicit unit type. The label contains
  "kg", yet the row normalises to \<open>Pcs\<close>: the source looks for the Latin "kg" in the
  explicit unit type only, and for the Cyrillic "kg" in both fields.
\<close>

theorem unit_raw_latin_kg_is_pcs:
  "str_includes (ascii ''5 kg'') (ascii ''kg'')
   \<and> map_sum id (map unit_type)
       (normalizeData refHost [JObj [(ascii ''unit_raw'', JStr (ascii ''5 kg''))]])
     = Inr [Pcs]"
  by (simp add: normalize_eval key_unit_ru_def kg_cyr_def)

text \<open>
  Claim C7 at the inputs where the source departs from it: a store name that is a
  single space and a category name that is a single line feed. Both values are truthy,
  so the fallback labels are not taken, and cleaning then leaves the empty string.
\<close>

theorem blank_names_normalize_to_empty:
  "map_sum id (map (\<lambda>n. (store_name n, category_name n)))
     (normalizeData refHost
        [JObj [(ascii ''store_name'', JStr [32]), (ascii ''category_name'', JStr [10])]])
   = Inr [([], [])]"
  by (simp add: normalize_eval)

text \<open>When both keys of a name are absent, the fallback label is what the row gets.\<close>

lemma absent_names_get_labels:
  "map_sum id (map (\<lambda>n. (store_name n, category_name n))) (normalizeData refHost [JObj []])
   = Inr [(label_unknown, label_other)]"
  by (simp add: normalize_eval label_unknown_def label_other_def)

text \<open>
  Claim C10. In every alias chain a machine-vocabulary key that holds 0, the empty
  string or \<^verbatim>\<open>null\<close> is passed over, and the field is resolved from the rest of the
  chain: the human-readable key, then the third alias or the fallback label where the
  chain has one. Here \<open>row\<close> is the resolved record.
\<close>

theorem alias_falsy_falls_through:
  "(row (ascii ''revenue_rub'') \<in> {JNum 0, JStr [], JNull} \<longrightarrow>
      map_sum id revenue_rub (normalizeFields E idx row)
      = Inr (parseNum E (js_or (row key_revenue_ru) (row (ascii ''revenue_rub_raw'')))))
 \<and> (row (ascii ''checks'') \<in> {JNum 0, JStr [], JNull} \<longrightarrow>
      map_sum id checks (normalizeFields E idx row) = Inr (parseNum E (row key_checks_ru)))
 \<and> (row (ascii ''pieces'') \<in> {JNum 0, JStr [], JNull} \<longrightarrow>
      map_sum id pieces (normalizeFields E idx row)
      = Inr (parseNum E (js_or (row key_pieces_ru) (row (ascii ''peaces'')))))
 \<and> (row (ascii ''weight_kg'') \<in> {JNum 0, JStr [], JNull} \<longrightarrow>
      map_sum id weight_kg (normalizeFields E idx row) = Inr (parseNum E (row key_weight_ru)))
 \<and> (row (ascii ''date'') \<in> {JNum 0, JStr [], JNull} \<longrightarrow>
      map_sum id date (normalizeFields E idx row) = Inr (cleanString E (row key_date_ru)))
 \<and> (row (ascii ''store_name'') \<in> {JNum 0, JStr [], JNull} \<longrightarrow>
      map_sum id store_name (normalizeFields E idx row)
      = Inr (cleanString E (js_or (row key_store_ru) (JStr label_unknown))))
 \<and> (row (ascii ''category_name'') \<in> {JNum 0, JStr [], JNull} \<longrightarrow>
      map_sum id category_name (normalizeFields E idx row)
      = Inr (cleanString E (js_or (row key_category_ru) (JStr label_other))))
 \<and> (row (ascii ''unit_raw'') \<in> {JNum 0, JStr [], JNull} \<longrightarrow>
      map_sum id unit_raw (normalizeFields E idx row) = Inr (cleanString E (row key_unit_ru)))"
  unfolding normalizeFields_def Let_def guarded_div bindE_Inr
  by (auto simp: js_or_def)

text \<open>
  The example of the claim: with \<^verbatim>\<open>checks: 0\<close> and 7 under the human-readable key, the
  normalised number of checks is 7, and so it is for the whole pipeline on that row.
\<close>

theorem alias_falsy_falls_through_witness:
  "map_sum id checks
     (normalizeFields refHost 0
        (\<lambda>k. case map_of [(ascii ''checks'', JNum 0), (key_checks_ru, JNum 7)] k of
                None \<Rightarrow> JUndefined | Some v \<Rightarrow> v))
   = Inr 7
   \<and> map_sum id (map checks)
       (normalizeData refHost [JObj [(ascii ''checks'', JNum 0), (key_checks_ru, JNum 7)]])
     = Inr [7]"
  using alias_falsy_falls_through [of
      "\<lambda>k. case map_of [(ascii ''checks'', JNum 0), (key_checks_ru, JNum 7)] k of
                None \<Rightarrow> JUndefined | Some v \<Rightarrow> v" refHost 0]
  by (simp add: normalize_eval key_checks_ru_def parseNum_def)

section \<open>The pivot table: cells and row totals\<close>

lemma readAux_gridOf: "r \<in> R \<Longrightarrow> c \<in> C \<Longrightarrow> readAux (gridOf R C f) r c = Inr (f r c)"
  by (simp add: readAux_def gridOf_def)

lemma setCell_gridOf:
  "r \<in> R \<Longrightarrow> c \<in> C \<Longrightarrow>
   setCell (gridOf R C f) r c x
   = Inr (gridOf R C (\<lambda>r' c'. if r' = r \<and> c' = c then x else f r' c'))"
  unfolding setCell_def gridOf_def by (auto intro!: ext)

lemma addCell_gridOf:
  "r \<in> R \<Longrightarrow> c \<in> C \<Longrightarrow>
   addCell (gridOf R C f) r c x
   = Inr (gridOf R C (\<lambda>r' c'. if r' = r \<and> c' = c then f r c + x else f r' c'))"
  unfolding addCell_def gridOf_def by (auto intro!: ext)

lemma cellRows_snoc:
  "cellRows E pr pc (ds @ [d]) r c =
     (if dimKey E pr d = r \<and> dimKey E pc d = c
      then cellRows E pr pc ds r c @ [d] else cellRows E pr pc ds r c)"
  by (simp add: cellRows_def)

lemma auxOf_snoc:
  "auxOf (ds @ [d]) = \<lparr> a_rev = a_rev (auxOf ds) + revenue_rub d,
                         a_chk = a_chk (auxOf ds) + checks d,
                         a_pcs = a_pcs (auxOf ds) + pieces d \<rparr>"
  by (simp add: auxOf_def)

lemma setCell_grid:
  assumes "r \<in> R" and "c \<in> C"
    and "\<And>r' c'. g r' c' = (if r' = r \<and> c' = c then x else f r' c')"
  shows "setCell (gridOf R C f) r c x = Inr (gridOf R C g)"
proof -
  have "(\<lambda>r' c'. if r' = r \<and> c' = c then x else f r' c') = g"
    by (intro ext) (simp add: assms(3))
  then show ?thesis
    using setCell_gridOf [OF assms(1,2), of f x] by simp
qed

lemma addCell_grid:
  assumes "r \<in> R" and "c \<in> C"
    and "\<And>r' c'. g r' c' = (if r' = r \<and> c' = c then f r c + x else f r' c')"
  shows "addCell (gridOf R C f) r c x = Inr (gridOf R C g)"
proof -
  have "(\<lambda>r' c'. if r' = r \<and> c' = c then f r c + x else f r' c') = g"
    by (intro ext) (simp add: assms(3))
  then show ?thesis
    using addCell_gridOf [OF assms(1,2), of f x] by simp
qed

lemma cellOf_sum_snoc:
  "cellOf sum_revenue (ds @ [d]) = cellOf sum_revenue ds + revenue_rub d"
  "cellOf sum_checks (ds @ [d]) = cellOf sum_checks ds + checks d"
  "cellOf sum_pieces (ds @ [d]) = cellOf sum_pieces ds + pieces d"
  "cellOf sum_weight (ds @ [d]) = cellOf sum_weight ds + weight_kg d"
  by (simp_all add: cellOf_def)

lemma cellOf_calc:
  "cellOf calc_atv ds = (if 0 < a_chk (auxOf ds) then a_rev (auxOf ds) / a_chk (auxOf ds) else 0)"
  "cellOf calc_upt ds = (if 0 < a_chk (auxOf ds) then a_pcs (auxOf ds) / a_chk (auxOf ds) else 0)"
  by (simp_all add: cellOf_def auxOf_def)

lemma pivotStep_grid:
  assumes R: "dimKey E pr d \<in> R" and C: "dimKey E pc d \<in> C"
  shows "pivotStep E pr pc v d
           (gridOf R C (\<lambda>r c. cellOf v (cellRows E pr pc ds r c)),
            gridOf R C (\<lambda>r c. auxOf (cellRows E pr pc ds r c)))
         = Inr (gridOf R C (\<lambda>r c. cellOf v (cellRows E pr pc (ds @ [d]) r c)),
                gridOf R C (\<lambda>r c. auxOf (cellRows E pr pc (ds @ [d]) r c)))"
proof -
  let ?r = "dimKey E pr d" and ?c = "dimKey E pc d"
  let ?here = "cellRows E pr pc ds ?r ?c"
  let ?M = "gridOf R C (\<lambda>r c. cellOf v (cellRows E pr pc ds r c))"
  let ?M' = "gridOf R C (\<lambda>r c. cellOf v (cellRows E pr pc (ds @ [d]) r c))"
  let ?A = "gridOf R C (\<lambda>r c. auxOf (cellRows E pr pc ds r c))"
  let ?A' = "gridOf R C (\<lambda>r c. auxOf (cellRows E pr pc (ds @ [d]) r c))"
  let ?a' = "\<lparr> a_rev = a_rev (auxOf ?here) + revenue_rub d,
              a_chk = a_chk (auxOf ?here) + checks d,
              a_pcs = a_pcs (auxOf ?here) + pieces d \<rparr>"
  have a': "?a' = auxOf (?here @ [d])"
    by (simp add: auxOf_snoc)
  have rd: "readAux ?A ?r ?c = Inr (auxOf ?here)"
    using R C by (simp add: readAux_gridOf)
  have wr: "setCell ?A ?r ?c (auxOf (?here @ [d])) = Inr ?A'"
    using R C by (rule setCell_grid) (simp add: cellRows_snoc)
  have add: "addCell ?M ?r ?c x = Inr ?M'"
    if "cellOf v (?here @ [d]) = cellOf v ?here + x" for x
    using R C by (rule addCell_grid) (simp add: cellRows_snoc that)
  have set: "setCell ?M ?r ?c (cellOf v (?here @ [d])) = Inr ?M'"
    using R C by (rule setCell_grid) (simp add: cellRows_snoc)
  have cell: "(case v of
             sum_revenue \<Rightarrow> addCell ?M ?r ?c (revenue_rub d)
           | sum_checks \<Rightarrow> addCell ?M ?r ?c (checks d)
           | sum_pieces \<Rightarrow> addCell ?M ?r ?c (pieces d)
           | sum_weight \<Rightarrow> addCell ?M ?r ?c (weight_kg d)
           | calc_atv \<Rightarrow>
               bindE (if 0 < a_chk (auxOf (?here @ [d]))
                      then js_div (a_rev (auxOf (?here @ [d]))) (a_chk (auxOf (?here @ [d])))
                      else Inr 0)
                 (setCell ?M ?r ?c)
           | calc_upt \<Rightarrow>
               bindE (if 0 < a_chk (auxOf (?here @ [d]))
                      then js_div (a_pcs (auxOf (?here @ [d]))) (a_chk (auxOf (?here @ [d])))
                      else Inr 0)
                 (setCell ?M ?r ?c))
        = Inr ?M'"
  proof (cases v)
    case sum_revenue
    then show ?thesis using add [of "revenue_rub d"] by (simp add: cellOf_sum_snoc)
  next
    case sum_checks
    then show ?thesis using add [of "checks d"] by (simp add: cellOf_sum_snoc)
  next
    case sum_pieces
    then show ?thesis using add [of "pieces d"] by (simp add: cellOf_sum_snoc)
  next
    case sum_weight
    then show ?thesis using add [of "weight_kg d"] by (simp add: cellOf_sum_snoc)
  next
    case calc_atv
    then show ?thesis
      using set by (simp only: PivotValueType.case guarded_div bindE_Inr cellOf_calc)
  next
    case calc_upt
    then show ?thesis
      using set by (simp only: PivotValueType.case guarded_div bindE_Inr cellOf_calc)
  qed
  show ?thesis
    unfolding pivotStep_def Let_def fst_conv snd_conv rd bindE_Inr a' wr cell ..
qed

lemma forEach_pivotStep:
  "\<forall>d\<in>set xs. dimKey E pr d \<in> R \<and> dimKey E pc d \<in> C \<Longrightarrow>
   forEachE (pivotStep E pr pc v) xs
     (gridOf R C (\<lambda>r c. cellOf v (cellRows E pr pc ds r c)),
      gridOf R C (\<lambda>r c. auxOf (cellRows E pr pc ds r c)))
   = Inr (gridOf R C (\<lambda>r c. cellOf v (cellRows E pr pc (ds @ xs) r c)),
          gridOf R C (\<lambda>r c. auxOf (cellRows E pr pc (ds @ xs) r c)))"
proof (induction xs arbitrary: ds)
  case Nil
  then show ?case by simp
next
  case (Cons x xs)
  then have "dimKey E pr x \<in> R" and "dimKey E pc x \<in> C"
    and rest: "\<forall>d\<in>set xs. dimKey E pr d \<in> R \<and> dimKey E pc d \<in> C"
    by simp_all
  then show ?case
    using Cons.IH [OF rest, of "ds @ [x]"]
    by (simp add: pivotStep_grid bindE_Inr)
qed

lemma initCells_fold:
  "fold (\<lambda>c cells. cells(c \<mapsto> v)) cs m = (\<lambda>c. if c \<in> set cs then Some v else m c)"
  by (induction cs arbitrary: m) (auto intro!: ext)

lemma initCells_eq: "initCells cs v = (\<lambda>c. if c \<in> set cs then Some v else None)"
  by (simp add: initCells_def initCells_fold)

lemma initGrid_fold:
  "fold (\<lambda>r m. m(r \<mapsto> w)) rs m = (\<lambda>r. if r \<in> set rs then Some w else m r)"
  by (induction rs arbitrary: m) (auto intro!: ext)

lemma initGrid_eq: "initGrid rs cs v = gridOf (set rs) (set cs) (\<lambda>r c. v)"
  by (simp add: initGrid_def initGrid_fold initCells_eq gridOf_def)

lemma set_insertBy: "set (insertBy cmp x ys) = insert x (set ys)"
  by (induction ys) auto

lemma distinct_insertBy: "distinct (insertBy cmp x ys) = (x \<notin> set ys \<and> distinct ys)"
  by (induction ys) (auto simp: set_insertBy)

lemma set_sortBy: "set (sortBy cmp xs) = set xs"
  unfolding sortBy_def by (induction xs) (simp_all add: set_insertBy)

lemma distinct_sortBy: "distinct (sortBy cmp xs) = distinct xs"
  unfolding sortBy_def
  by (induction xs) (simp_all add: distinct_insertBy set_sortBy [unfolded sortBy_def])

lemma length_insertBy: "length (insertBy cmp x ys) = Suc (length ys)"
  by (induction ys) simp_all

lemma length_sortBy: "length (sortBy cmp xs) = length xs"
  unfolding sortBy_def by (induction xs) (simp_all add: length_insertBy)

lemma set_setToArray: "set (setToArray xs) = set xs"
  by (simp add: setToArray_def)

lemma distinct_setToArray: "distinct (setToArray xs)"
  by (simp add: setToArray_def)

lemma rowKeysOf_set: "set (rowKeysOf E rows pr) = dimKey E pr ` set rows"
  by (simp add: rowKeysOf_def set_setToArray)


lemma colKeysOf_set: "set (colKeysOf E rows pc) = dimKey E pc ` set rows"
  by (simp add: colKeysOf_def set_sortBy set_setToArray)

lemma colKeysOf_distinct: "distinct (colKeysOf E rows pc)"
  by (simp add: colKeysOf_def distinct_sortBy distinct_setToArray)

lemma cellOf_Nil: "cellOf v [] = 0"
  by (cases v) (simp_all add: cellOf_def)

lemma pivotTable_closed:
  "pivotTable E rows pr pc v =
     Inr \<lparr> rowKeys = rowKeysOf E rows pr,
           colKeys = colKeysOf E rows pc,
           matrix = gridOf (set (rowKeysOf E rows pr)) (set (colKeysOf E rows pc))
                      (\<lambda>r c. cellOf v (cellRows E pr pc rows r c)),
           matrixAux = gridOf (set (rowKeysOf E rows pr)) (set (colKeysOf E rows pc))
                         (\<lambda>r c. auxOf (cellRows E pr pc rows r c)) \<rparr>"
proof -
  let ?R = "set (rowKeysOf E rows pr)" and ?C = "set (colKeysOf E rows pc)"
  have keys: "\<forall>d\<in>set rows. dimKey E pr d \<in> ?R \<and> dimKey E pc d \<in> ?C"
    by (simp add: rowKeysOf_set colKeysOf_set)
  have init_m: "initGrid (rowKeysOf E rows pr) (colKeysOf E rows pc) (0::real)
                = gridOf ?R ?C (\<lambda>r c. cellOf v (cellRows E pr pc [] r c))"
    by (simp add: initGrid_eq cellRows_def cellOf_Nil)
  have init_a: "initGrid (rowKeysOf E rows pr) (colKeysOf E rows pc)
                  \<lparr> a_rev = 0, a_chk = 0, a_pcs = 0 \<rparr>
                = gridOf ?R ?C (\<lambda>r c. auxOf (cellRows E pr pc [] r c))"
    by (simp add: initGrid_eq cellRows_def auxOf_def)
  show ?thesis
    unfolding pivotTable_def Let_def init_m init_a
    using forEach_pivotStep [OF keys, of v "[]"]
    by (simp add: bindE_Inr)
qed


lemma sum_list_pick_none:
  "a \<notin> set ks \<Longrightarrow> sum_list (map (\<lambda>k. if a = k then v else (0::real)) ks) = 0"
  by (induction ks) auto

lemma sum_list_pick:
  "distinct ks \<Longrightarrow> a \<in> set ks \<Longrightarrow>
   sum_list (map (\<lambda>k. if a = k then v else (0::real)) ks) = v"
  by (induction ks) (auto simp: sum_list_pick_none)

lemma sum_list_group:
  fixes g :: "'a \<Rightarrow> real"
  assumes "distinct ks"
  shows "\<forall>x\<in>set xs. f x \<in> set ks \<Longrightarrow>
    sum_list (map (\<lambda>k. sum_list (map g (filter (\<lambda>x. f x = k) xs))) ks) = sum_list (map g xs)"
proof (induction xs)
  case Nil
  then show ?case by simp
next
  case (Cons x xs)
  then have x: "f x \<in> set ks" and xs: "\<forall>x\<in>set xs. f x \<in> set ks" by simp_all
  have "sum_list (map (\<lambda>k. sum_list (map g (filter (\<lambda>y. f y = k) (x # xs)))) ks)
      = sum_list (map (\<lambda>k. (if f x = k then g x else 0)
                            + sum_list (map g (filter (\<lambda>y. f y = k) xs))) ks)"
    by (intro arg_cong [where f = sum_list] map_cong) auto
  also have "\<dots> = sum_list (map (\<lambda>k. if f x = k then g x else 0) ks)
                 + sum_list (map (\<lambda>k. sum_list (map g (filter (\<lambda>y. f y = k) xs))) ks)"
    by (simp add: sum_list_addf)
  also have "\<dots> = g x + sum_list (map g xs)"
    by (simp add: sum_list_pick [OF assms x] Cons.IH [OF xs])
  finally show ?case by simp
qed

lemma cellRows_nested:
  "cellRows E pr pc rows r c
   = filter (\<lambda>d. dimKey E pc d = c) (filter (\<lambda>d. dimKey E pr d = r) rows)"
  by (simp add: cellRows_def conj_commute)

lemma row_sum_over_columns:
  fixes g :: "NormalizedRow \<Rightarrow> real"
  shows "sum_list (map (\<lambda>c. sum_list (map g (cellRows E pr pc rows r c))) (colKeysOf E rows pc))
         = sum_list (map g (filter (\<lambda>d. dimKey E pr d = r) rows))"
  unfolding cellRows_nested
  by (rule sum_list_group [OF colKeysOf_distinct]) (simp add: colKeysOf_set)



lemma row_sums_over_cells:
  assumes "r \<in> set (rowKeysOf E rows pr)"
  shows "\<exists>pt. pivotTable E rows pr pc v = Inr pt
    \<and> sum_list (map (\<lambda>c. a_rev (the (the (matrixAux pt r) c))) (colKeys pt))
      = sum_list (map revenue_rub (filter (\<lambda>d. dimKey E pr d = r) rows))
    \<and> sum_list (map (\<lambda>c. a_chk (the (the (matrixAux pt r) c))) (colKeys pt))
      = sum_list (map checks (filter (\<lambda>d. dimKey E pr d = r) rows))
    \<and> sum_list (map (\<lambda>c. a_pcs (the (the (matrixAux pt r) c))) (colKeys pt))
      = sum_list (map pieces (filter (\<lambda>d. dimKey E pr d = r) rows))"
proof -
  let ?R = "rowKeysOf E rows pr" and ?C = "colKeysOf E rows pc"
  let ?g = "\<lambda>r c. auxOf (cellRows E pr pc rows r c)"
  let ?A = "gridOf (set ?R) (set ?C) ?g"
  have cell: "sum_list (map (\<lambda>c. h (the (the (?A r) c))) ?C)
            = sum_list (map (\<lambda>c. h (?g r c)) ?C)" for h :: "cellAux \<Rightarrow> real"
    using assms by (intro arg_cong [where f = sum_list] map_cong refl) (simp add: gridOf_def)
  have e1: "sum_list (map (\<lambda>c. a_rev (the (the (?A r) c))) ?C)
          = sum_list (map revenue_rub (filter (\<lambda>d. dimKey E pr d = r) rows))"
    unfolding cell [of a_rev] by (simp add: auxOf_def row_sum_over_columns)
  have e2: "sum_list (map (\<lambda>c. a_chk (the (the (?A r) c))) ?C)
          = sum_list (map checks (filter (\<lambda>d. dimKey E pr d = r) rows))"
    unfolding cell [of a_chk] by (simp add: auxOf_def row_sum_over_columns)
  have e3: "sum_list (map (\<lambda>c. a_pcs (the (the (?A r) c))) ?C)
          = sum_list (map pieces (filter (\<lambda>d. dimKey E pr d = r) rows))"
    unfolding cell [of a_pcs] by (simp add: auxOf_def row_sum_over_columns)
  show ?thesis
    unfolding pivotTable_closed
    by (simp only: sum.inject pivot.simps e1 e2 e3 simp_thms)
qed







text \<open>
  The total 8 of that example again, this time by running the model: the keys are
  computed, the two matrices are filled row by row, and the cells of the row are
  walked.
\<close>

lemma ref_keys_ab:
  "toNumber refHost [65] = None" "toNumber refHost [66] = None"
  by (simp_all add: refHost_def refNumber_def trim_def isWhiteSpace_def isDigit_def
       parseFloat_def digitsVal_def Let_def)

lemma pivot_example_keys:
  "rowKeysOf refHost
     [sampleRow [] [65] [120] 100 10 20, sampleRow [] [66] [120] 20 5 5,
      sampleRow [] [65] [121] 7 1 1] F_category_name = [[120], [121]]"
  "colKeysOf refHost
     [sampleRow [] [65] [120] 100 10 20, sampleRow [] [66] [120] 20 5 5,
      sampleRow [] [65] [121] 7 1 1] F_store_name = [[65], [66]]"
  by (simp_all add: rowKeysOf_def colKeysOf_def sortBy_def setToArray_def sampleRow_def
        colCompare_def ref_keys_ab ref_compare_le)

lemma pivot_example_run:
  "rowTotalOf refHost
     [sampleRow [] [65] [120] 100 10 20, sampleRow [] [66] [120] 20 5 5,
      sampleRow [] [65] [121] 7 1 1] F_category_name F_store_name calc_atv [120] = Inr 8"
  unfolding rowTotalOf_def pivotTable_def Let_def pivot_example_keys
  by (simp add: initGrid_def initCells_def pivotStep_def readAux_def setCell_def addCell_def
        bindE_Inr js_div_def sampleRow_def finalTotal_def rowCell_def isSumMeasure_def Let_def)



section \<open>No stage raises\<close>










section \<open>The order of the column keys\<close>

lemma sorted_insertBy:
  assumes tot: "\<And>a b. a \<in> S \<Longrightarrow> b \<in> S \<Longrightarrow> cmp a b \<le> 0 \<or> cmp b a \<le> 0"
    and tr: "\<And>a b c. a \<in> S \<Longrightarrow> b \<in> S \<Longrightarrow> c \<in> S \<Longrightarrow>
               cmp a b \<le> 0 \<Longrightarrow> cmp b c \<le> 0 \<Longrightarrow> cmp a c \<le> 0"
    and x: "x \<in> S"
  shows "set ys \<subseteq> S \<Longrightarrow> sorted_wrt (\<lambda>a b. cmp a b \<le> 0) ys \<Longrightarrow>
         sorted_wrt (\<lambda>a b. cmp a b \<le> 0) (insertBy cmp x ys)"
proof (induction ys)
  case Nil
  then show ?case by simp
next
  case (Cons y ys)
  then have y: "y \<in> S" and ys: "set ys \<subseteq> S"
    and after: "\<forall>z\<in>set ys. cmp y z \<le> 0" and rest: "sorted_wrt (\<lambda>a b. cmp a b \<le> 0) ys"
    by simp_all
  show ?case
  proof (cases "cmp x y \<le> 0")
    case True
    have "\<forall>z\<in>set ys. cmp x z \<le> 0"
      using tr [OF x y _ True] after ys by blast
    with True after rest show ?thesis by simp
  next
    case False
    then have "cmp y x \<le> 0"
      using tot [OF x y] by blast
    with False after Cons.IH [OF ys rest] show ?thesis
      by (simp add: set_insertBy)
  qed
qed

lemma sorted_sortBy:
  assumes tot: "\<And>a b. a \<in> S \<Longrightarrow> b \<in> S \<Longrightarrow> cmp a b \<le> 0 \<or> cmp b a \<le> 0"
    and tr: "\<And>a b c. a \<in> S \<Longrightarrow> b \<in> S \<Longrightarrow> c \<in> S \<Longrightarrow>
               cmp a b \<le> 0 \<Longrightarrow> cmp b c \<le> 0 \<Longrightarrow> cmp a c \<le> 0"
  shows "set xs \<subseteq> S \<Longrightarrow> sorted_wrt (\<lambda>a b. cmp a b \<le> 0) (sortBy cmp xs)"
proof (induction xs)
  case Nil
  then show ?case by (simp add: sortBy_def)
next
  case (Cons x xs)
  then have x: "x \<in> S" and xs: "set xs \<subseteq> S" by simp_all
  have "sorted_wrt (\<lambda>a b. cmp a b \<le> 0) (insertBy cmp x (sortBy cmp xs))"
    using xs by (intro sorted_insertBy [OF tot tr x] Cons.IH) (simp_all add: set_sortBy)
  then show ?case by (simp add: sortBy_def)
qed

lemma colKeys_numeric_sorted:
  assumes "\<forall>k\<in>set (colKeysOf E rows pc). toNumber E k \<noteq> None"
  shows "sorted_wrt (\<lambda>a b. the (toNumber E a) \<le> the (toNumber E b)) (colKeysOf E rows pc)"
proof -
  let ?S = "set (colKeysOf E rows pc)"
  have cmp: "colCompare E a b = the (toNumber E a) - the (toNumber E b)"
    if "a \<in> ?S" and "b \<in> ?S" for a b
  proof -
    have "toNumber E a \<noteq> None" and "toNumber E b \<noteq> None"
      using assms that by simp_all
    then obtain x y where "toNumber E a = Some x" and "toNumber E b = Some y"
      by (auto simp: not_None_eq)
    then show ?thesis by (simp add: colCompare_def)
  qed
  have "sorted_wrt (\<lambda>a b. colCompare E a b \<le> 0)
          (sortBy (colCompare E) (setToArray (map (dimKey E pc) rows)))"
  proof (rule sorted_sortBy [where S = ?S])
    fix a b assume ab: "a \<in> ?S" "b \<in> ?S"
    show "colCompare E a b \<le> 0 \<or> colCompare E b a \<le> 0"
      unfolding cmp [OF ab] cmp [OF ab(2,1)] by linarith
  next
    fix a b c assume abc: "a \<in> ?S" "b \<in> ?S" "c \<in> ?S"
      and le: "colCompare E a b \<le> 0" "colCompare E b c \<le> 0"
    show "colCompare E a c \<le> 0"
      using le unfolding cmp [OF abc(1,2)] cmp [OF abc(2,3)] cmp [OF abc(1,3)] by linarith
  next
    show "set (setToArray (map (dimKey E pc) rows)) \<subseteq> ?S"
      by (simp add: colKeysOf_def set_sortBy)
  qed
  then have "sorted_wrt (\<lambda>a b. colCompare E a b \<le> 0) (colKeysOf E rows pc)"
    by (simp add: colKeysOf_def)
  then show ?thesis
  proof (rule sorted_wrt_mono_rel [rotated])
    fix a b assume ab: "a \<in> ?S" "b \<in> ?S" and le: "colCompare E a b \<le> 0"
    show "the (toNumber E a) \<le> the (toNumber E b)"
      using le unfolding cmp [OF ab] by linarith
  qed
qed

lemma colKeys_text_sorted:
  assumes none: "\<forall>k\<in>set (colKeysOf E rows pc). toNumber E k = None"
    and tot: "\<forall>a\<in>set (colKeysOf E rows pc). \<forall>b\<in>set (colKeysOf E rows pc).
                localeCompare E a b \<le> 0 \<or> localeCompare E b a \<le> 0"
    and tr: "\<forall>a\<in>set (colKeysOf E rows pc). \<forall>b\<in>set (colKeysOf E rows pc).
               \<forall>c\<in>set (colKeysOf E rows pc).
                 localeCompare E a b \<le> 0 \<and> localeCompare E b c \<le> 0
                 \<longrightarrow> localeCompare E a c \<le> 0"
  shows "sorted_wrt (\<lambda>a b. localeCompare E a b \<le> 0) (colKeysOf E rows pc)"
proof -
  let ?S = "set (colKeysOf E rows pc)"
  have cmp: "colCompare E a b = localeCompare E a b" if "a \<in> ?S" for a b
    using none that by (simp add: colCompare_def)
  have "sorted_wrt (\<lambda>a b. colCompare E a b \<le> 0)
          (sortBy (colCompare E) (setToArray (map (dimKey E pc) rows)))"
  proof (rule sorted_sortBy [where S = ?S])
    fix a b assume ab: "a \<in> ?S" "b \<in> ?S"
    show "colCompare E a b \<le> 0 \<or> colCompare E b a \<le> 0"
      unfolding cmp [OF ab(1)] cmp [OF ab(2)] using tot ab by blast
  next
    fix a b c assume abc: "a \<in> ?S" "b \<in> ?S" "c \<in> ?S"
      and le: "colCompare E a b \<le> 0" "colCompare E b c \<le> 0"
    have "localeCompare E a b \<le> 0" and "localeCompare E b c \<le> 0"
      using le unfolding cmp [OF abc(1)] cmp [OF abc(2)] by simp_all
    then show "colCompare E a c \<le> 0"
      unfolding cmp [OF abc(1)] using tr abc by blast
  next
    show "set (setToArray (map (dimKey E pc) rows)) \<subseteq> ?S"
      by (simp add: colKeysOf_def set_sortBy)
  qed
  then have "sorted_wrt (\<lambda>a b. colCompare E a b \<le> 0) (colKeysOf E rows pc)"
    by (simp add: colKeysOf_def)
  then show ?thesis
  proof (rule sorted_wrt_mono_rel [rotated])
    fix a b assume ab: "a \<in> ?S" "b \<in> ?S" and le: "colCompare E a b \<le> 0"
    show "localeCompare E a b \<le> 0"
      using le unfolding cmp [OF ab(1)] .
  qed
qed

text \<open>
  Claim C5, as the source has it. The column keys are the distinct values of the column
  dimension. When every key parses as a number they are in ascending numeric order.
  When no key parses as a number they are in the order of \<^verbatim>\<open>localeCompare\<close>, the
  lexicographic comparison of the source, provided the host's comparison is total and
  transitive on the keys. For a set that mixes the two kinds nothing of the sort is
  stated: the comparator still compares two numeric keys by their values.
\<close>

theorem colKeys_order:
  "set (colKeysOf E rows pivotCol) = dimKey E pivotCol ` set rows
   \<and> distinct (colKeysOf E rows pivotCol)
   \<and> ((\<forall>k\<in>set (colKeysOf E rows pivotCol). toNumber E k \<noteq> None)
        \<longrightarrow> sorted_wrt (\<lambda>a b. the (toNumber E a) \<le> the (toNumber E b))
              (colKeysOf E rows pivotCol))
   \<and> ((\<forall>k\<in>set (colKeysOf E rows pivotCol). toNumber E k = None)
        \<and> (\<forall>a\<in>set (colKeysOf E rows pivotCol). \<forall>b\<in>set (colKeysOf E rows pivotCol).
              localeCompare E a b \<le> 0 \<or> localeCompare E b a \<le> 0)
        \<and> (\<forall>a\<in>set (colKeysOf E rows pivotCol). \<forall>b\<in>set (colKeysOf E rows pivotCol).
             \<forall>c\<in>set (colKeysOf E rows pivotCol).
               localeCompare E a b \<le> 0 \<and> localeCompare E b c \<le> 0
               \<longrightarrow> localeCompare E a c \<le> 0)
        \<longrightarrow> sorted_wrt (\<lambda>a b. localeCompare E a b \<le> 0) (colKeysOf E rows pivotCol))"
proof (intro conjI impI)
  show "set (colKeysOf E rows pivotCol) = dimKey E pivotCol ` set rows"
    by (rule colKeysOf_set)
  show "distinct (colKeysOf E rows pivotCol)"
    by (rule colKeysOf_distinct)
next
  assume "\<forall>k\<in>set (colKeysOf E rows pivotCol). toNumber E k \<noteq> None"
  then show "sorted_wrt (\<lambda>a b. the (toNumber E a) \<le> the (toNumber E b))
               (colKeysOf E rows pivotCol)"
    by (rule colKeys_numeric_sorted)
next
  assume h: "(\<forall>k\<in>set (colKeysOf E rows pivotCol). toNumber E k = None)
        \<and> (\<forall>a\<in>set (colKeysOf E rows pivotCol). \<forall>b\<in>set (colKeysOf E rows pivotCol).
              localeCompare E a b \<le> 0 \<or> localeCompare E b a \<le> 0)
        \<and> (\<forall>a\<in>set (colKeysOf E rows pivotCol). \<forall>b\<in>set (colKeysOf E rows pivotCol).
             \<forall>c\<in>set (colKeysOf E rows pivotCol).
               localeCompare E a b \<le> 0 \<and> localeCompare E b c \<le> 0
               \<longrightarrow> localeCompare E a c \<le> 0)"
  show "sorted_wrt (\<lambda>a b. localeCompare E a b \<le> 0) (colKeysOf E rows pivotCol)"
    by (rule colKeys_text_sorted [OF conjunct1 [OF h] conjunct1 [OF conjunct2 [OF h]]
          conjunct2 [OF conjunct2 [OF h]]])
qed

text \<open>The reference host on the keys of the examples: "10", "9", "2", "a" and "b".\<close>

lemma ref_numbers:
  "toNumber refHost [49, 48] = Some 10"
  "toNumber refHost [57] = Some 9"
  "toNumber refHost [50] = Some 2"
  "toNumber refHost [97] = None"
  "toNumber refHost [98] = None"
  by (simp_all add: refHost_def refNumber_def trim_def isWhiteSpace_def isDigit_def
       parseFloat_def digitsVal_def Let_def)

lemma colKeys_mixed_eval:
  "colKeysOf refHost
     [sampleRow [] (ascii ''10'') [] 1 1 1, sampleRow [] (ascii ''a'') [] 1 1 1,
      sampleRow [] (ascii ''9'') [] 1 1 1] F_store_name
   = [ascii ''9'', ascii ''10'', ascii ''a'']"
  by (simp add: colKeysOf_def sortBy_def setToArray_def sampleRow_def ascii_def colCompare_def
       ref_numbers ref_compare_le)


lemma colKeys_numeric_eval:
  "colKeysOf refHost
     [sampleRow [] (ascii ''10'') [] 1 1 1, sampleRow [] (ascii ''2'') [] 1 1 1,
      sampleRow [] (ascii ''9'') [] 1 1 1, sampleRow [] (ascii ''2'') [] 1 1 1] F_store_name
   = [ascii ''2'', ascii ''9'', ascii ''10'']"
  by (simp add: colKeysOf_def sortBy_def setToArray_def sampleRow_def ascii_def colCompare_def
       ref_numbers ref_compare_le)

lemma colKeys_text_eval:
  "colKeysOf refHost
     [sampleRow [] (ascii ''b'') [] 1 1 1, sampleRow [] (ascii ''a'') [] 1 1 1] F_store_name
   = [ascii ''a'', ascii ''b'']"
  by (simp add: colKeysOf_def sortBy_def setToArray_def sampleRow_def ascii_def colCompare_def
       ref_numbers ref_compare_le)

text \<open>
  The keys "10", "2", "9" come out as "2", "9", "10", and the keys "b", "a" as
  "a", "b".
\<close>

theorem colKeys_order_witness:
  "colKeysOf refHost
     [sampleRow [] (ascii ''10'') [] 1 1 1, sampleRow [] (ascii ''2'') [] 1 1 1,
      sampleRow [] (ascii ''9'') [] 1 1 1, sampleRow [] (ascii ''2'') [] 1 1 1] F_store_name
   = [ascii ''2'', ascii ''9'', ascii ''10'']
   \<and> sorted_wrt (\<lambda>a b. the (toNumber refHost a) \<le> the (toNumber refHost b))
       (colKeysOf refHost
          [sampleRow [] (ascii ''10'') [] 1 1 1, sampleRow [] (ascii ''2'') [] 1 1 1,
           sampleRow [] (ascii ''9'') [] 1 1 1, sampleRow [] (ascii ''2'') [] 1 1 1]
          F_store_name)
   \<and> colKeysOf refHost
       [sampleRow [] (ascii ''b'') [] 1 1 1, sampleRow [] (ascii ''a'') [] 1 1 1] F_store_name
     = [ascii ''a'', ascii ''b'']
   \<and> sorted_wrt (\<lambda>a b. localeCompare refHost a b \<le> 0)
       (colKeysOf refHost
          [sampleRow [] (ascii ''b'') [] 1 1 1, sampleRow [] (ascii ''a'') [] 1 1 1]
          F_store_name)"
proof -
  let ?num = "[sampleRow [] (ascii ''10'') [] 1 1 1, sampleRow [] (ascii ''2'') [] 1 1 1,
               sampleRow [] (ascii ''9'') [] 1 1 1, sampleRow [] (ascii ''2'') [] 1 1 1]"
  let ?txt = "[sampleRow [] (ascii ''b'') [] 1 1 1, sampleRow [] (ascii ''a'') [] 1 1 1]"
  have all_num: "\<forall>k\<in>set (colKeysOf refHost ?num F_store_name). toNumber refHost k \<noteq> None"
    unfolding colKeys_numeric_eval by (simp add: ascii_def ref_numbers)
  have no_num: "\<forall>k\<in>set (colKeysOf refHost ?txt F_store_name). toNumber refHost k = None"
    unfolding colKeys_text_eval by (simp add: ascii_def ref_numbers)
  have tot: "\<forall>a\<in>set (colKeysOf refHost ?txt F_store_name).
             \<forall>b\<in>set (colKeysOf refHost ?txt F_store_name).
               localeCompare refHost a b \<le> 0 \<or> localeCompare refHost b a \<le> 0"
    unfolding ref_compare_le by (simp add: linear)
  have tr: "\<forall>a\<in>set (colKeysOf refHost ?txt F_store_name).
            \<forall>b\<in>set (colKeysOf refHost ?txt F_store_name).
            \<forall>c\<in>set (colKeysOf refHost ?txt F_store_name).
              localeCompare refHost a b \<le> 0 \<and> localeCompare refHost b c \<le> 0
              \<longrightarrow> localeCompare refHost a c \<le> 0"
    unfolding ref_compare_le by auto
  have "sorted_wrt (\<lambda>a b. the (toNumber refHost a) \<le> the (toNumber refHost b))
          (colKeysOf refHost ?num F_store_name)"
    using colKeys_order [of refHost ?num F_store_name] all_num by blast
  moreover have "sorted_wrt (\<lambda>a b. localeCompare refHost a b \<le> 0)
          (colKeysOf refHost ?txt F_store_name)"
    using colKeys_order [of refHost ?txt F_store_name] no_num tot tr by blast
  ultimately show ?thesis
    using colKeys_numeric_eval colKeys_text_eval by simp
qed

text \<open>
  Claim C5 as stated fails on the mixed keys "10", "a", "9": not every key parses as a
  number, yet the result "9", "10", "a" is not in lexicographic order, which would
  put "10" before "9".
\<close>

theorem colKeys_mixed_counterexample:
  "toNumber refHost (ascii ''a'') = None
   \<and> colKeysOf refHost
       [sampleRow [] (ascii ''10'') [] 1 1 1, sampleRow [] (ascii ''a'') [] 1 1 1,
        sampleRow [] (ascii ''9'') [] 1 1 1] F_store_name
     = [ascii ''9'', ascii ''10'', ascii ''a'']
   \<and> \<not> sorted_wrt (\<lambda>a b. localeCompare refHost a b \<le> 0)
        (colKeysOf refHost
           [sampleRow [] (ascii ''10'') [] 1 1 1, sampleRow [] (ascii ''a'') [] 1 1 1,
            sampleRow [] (ascii ''9'') [] 1 1 1] F_store_name)
   \<and> \<not> sorted
        (colKeysOf refHost
           [sampleRow [] (ascii ''10'') [] 1 1 1, sampleRow [] (ascii ''a'') [] 1 1 1,
            sampleRow [] (ascii ''9'') [] 1 1 1] F_store_name)"
  unfolding colKeys_mixed_eval ref_compare_le
  by (simp add: ascii_def ref_numbers)

section \<open>The category ranking\<close>


















text \<open>Eleven categories with the sums 1 to 11: the one with the sum 1 is cut off.\<close>

lemma ranking_truncates:
  "chart_categories (chartData refHost
     [sampleRow [] [] [97] 1 1 1,
      sampleRow [] [] [98] 2 1 1,
      sampleRow [] [] [99] 3 1 1,
      sampleRow [] [] [100] 4 1 1,
      sampleRow [] [] [101] 5 1 1,
      sampleRow [] [] [102] 6 1 1,
      sampleRow [] [] [103] 7 1 1,
      sampleRow [] [] [104] 8 1 1,
      sampleRow [] [] [105] 9 1 1,
      sampleRow [] [] [106] 10 1 1,
      sampleRow [] [] [107] 11 1 1])
   = [([107], 11), ([106], 10), ([105], 9), ([104], 8), ([103], 7), ([102], 6), ([101], 5), ([100], 4), ([99], 3), ([98], 2)]"
  by (simp add: chartData_def chartMaps_def objectEntries_def isArrayIndex_def isDigit_def
       digitsVal_def sortBy_def sampleRow_def)

end
